theory Spec2Isabelle
  imports Main "HOL-Library.Char_ord" "HOL-Library.List_Lexorder"
begin

section \<open>The PDF e-mail relay (\<open>src/email_relay.py\<close>)\<close>

text \<open>
  A shallow embedding of \<open>EmailRelay.merge_pdfs\<close> and \<open>EmailRelay.relay_email\<close>.
  Python exceptions are values of \<open>error\<close>; the temporary directory and the directory
  \<open>temp_merged_pdfs\<close> are an explicit store from paths to file contents; the libraries
  the code calls (PyPDF2, the UTF-8 decoder, SMTP submission) and the file system's
  answer to the write of the merged file are fields of \<open>env\<close>.
  \<open>relay_email\<close> is modelled in relaying mode (\<open>self.simulate = False\<close>): the
  simulation persister of lines 226-247 and 315-316 writes below \<open>email_simulation\<close>
  only and is left out.
\<close>

subsection \<open>Strings, bytes and errors\<close>

type_synonym bytes = "char list"

datatype error =
    IndexError | FileNotFoundError | PdfReadError | TypeError | AttributeError
  | SMTPException | OSError

text \<open>
  Python's \<open>needle in haystack\<close> on strings: \<open>needle\<close> occurs as a contiguous run.
  The character type is any linear order (bytes or code points); Python compares
  strings lexicographically by code point, which is the order of \<open>List_Lexorder\<close>.
\<close>

fun str_contains :: "'c list \<Rightarrow> 'c list \<Rightarrow> bool" where
  "str_contains needle [] = (needle = [])"
| "str_contains needle (c # cs) =
     (take (length needle) (c # cs) = needle \<or> str_contains needle cs)"

definition lower_char :: "char \<Rightarrow> char" where
  "lower_char c =
     (case map_of (zip ''ABCDEFGHIJKLMNOPQRSTUVWXYZ'' ''abcdefghijklmnopqrstuvwxyz'') c of
        None \<Rightarrow> c
      | Some l \<Rightarrow> l)"

text \<open>
  \<open>str.lower\<close>, on ASCII letters. \<open>relay_email\<close> only tests the lowered name for the
  suffix \<open>.pdf\<close>, and no other code point lowers to one of these four characters.
\<close>

definition lower :: "string \<Rightarrow> string" where
  "lower s = map lower_char s"

definition endswith :: "string \<Rightarrow> string \<Rightarrow> bool" where
  "endswith s suffix =
     (length suffix \<le> length s \<and> drop (length s - length suffix) s = suffix)"

text \<open>\<open>os.path.basename\<close>: what follows the last separator.\<close>

definition basename :: "string \<Rightarrow> string" where
  "basename p = rev (takeWhile (\<lambda>c. c \<noteq> CHR ''/'') (rev p))"

subsection \<open>The merge decision of \<open>merge_pdfs\<close> (lines 131-159, 167)\<close>

datatype ('p, 'c) merge_plan =
    NoMerge
  | Merge (ordered_sources: "'p list") (output_filename: "'c list")

text \<open>Line 136: the positions of the filenames that contain the configured marker.\<close>

definition invoice_pdf_indices :: "'c list \<Rightarrow> 'c list list \<Rightarrow> nat list" where
  "invoice_pdf_indices invoice_string pdf_filenames =
     filter (\<lambda>i. invoice_string \<noteq> [] \<and> str_contains invoice_string (pdf_filenames ! i))
       [0..<length pdf_filenames]"

text \<open>
  The decision is generic in the type \<open>'p\<close> of the sources (the code passes paths of
  temporary files) and in the characters \<open>'c\<close> of filenames. \<open>NoMerge\<close> is the
  \<open>return None\<close> of lines 133 and 141. Every list access of the source that can raise
  \<open>IndexError\<close> (the two argument lists are separate lists) is a branch: \<open>sort\<close> and
  \<open>sorted\<close> evaluate the key of every element before ordering them, and both are
  stable.
\<close>

definition merge_pdfs_plan ::
  "('c::linorder) list \<Rightarrow> 'p list \<Rightarrow> 'c list list \<Rightarrow> error + ('p, 'c) merge_plan" where
  "merge_pdfs_plan invoice_string pdf_paths pdf_filenames =
     (if length pdf_paths \<le> 1 then Inr NoMerge
      else
        let idx = invoice_pdf_indices invoice_string pdf_filenames in
        if invoice_string \<noteq> [] \<and> length idx > 1 then Inr NoMerge
        else
          (case idx of
             invoice_index # _ \<Rightarrow>
               if \<not> invoice_index < length pdf_paths then Inl IndexError
               else
                 let other_pdf_indices =
                       filter (\<lambda>i. i \<noteq> invoice_index) [0..<length pdf_paths] in
                 if \<not> list_all (\<lambda>i. i < length pdf_filenames) other_pdf_indices
                 then Inl IndexError
                 else
                   Inr (Merge
                     (pdf_paths ! invoice_index #
                        map (\<lambda>i. pdf_paths ! i)
                          (sort_key (\<lambda>i. pdf_filenames ! i) other_pdf_indices))
                     (pdf_filenames ! invoice_index))
           | [] \<Rightarrow>
               let sorted_indices =
                     sort_key (\<lambda>i. pdf_filenames ! i) [0..<length pdf_filenames] in
               if \<not> list_all (\<lambda>i. i < length pdf_paths) sorted_indices
               then Inl IndexError
               else
                 (case sorted_indices of
                    [] \<Rightarrow> Inl IndexError
                  | first # _ \<Rightarrow>
                      Inr (Merge (map (\<lambda>i. pdf_paths ! i) sorted_indices)
                             (pdf_filenames ! first)))))"

subsection \<open>Files, and the libraries the relay calls\<close>

text \<open>
  \<open>TempPdf n\<close> is the \<open>n\<close>-th name \<open>tempfile.NamedTemporaryFile\<close> hands out
  (each call creates a new file). \<open>MergedPdf name\<close> is the path
  \<open>os.path.join(temp_merge_dir, name)\<close> for any \<open>name\<close>: a file of
  \<open>temp_merged_pdfs\<close> for a plain name, a file elsewhere for a name that is absolute
  or climbs with \<open>..\<close>. Its \<open>os.path.basename\<close> is \<open>basename name\<close>.
\<close>

datatype path = TempPdf nat | MergedPdf string

record state =
  files :: "path \<rightharpoonup> bytes"
  next_temp :: nat

datatype out_part =
    MIMEApplication bytes string
  | MIMEText string string

record out_message =
  hdr_from :: string
  hdr_to :: string
  hdr_subject :: string
  hdr_x_original_sender :: string
  attached :: "out_part list"

text \<open>
  \<open>pdf_concat\<close>: \<open>PdfMerger.append\<close> of each source in turn and the bytes that
  \<open>write\<close> produces; \<open>None\<close> when the library raises (a corrupt PDF).
  \<open>can_write name\<close>: whether \<open>os.path.join(temp_merge_dir, name)\<close> can be opened for
  writing at line 175, a fact of the file system around the relay: it cannot for the
  empty name (the path is the directory itself) nor for a name whose directory part
  does not exist. \<open>utf8_ignore\<close>: \<open>bytes.decode('utf-8', errors='ignore')\<close>.
  \<open>smtp_send\<close>: the SMTP session of lines 326-331, \<open>False\<close> when it raises.
\<close>

record env =
  pdf_concat :: "bytes list \<Rightarrow> bytes option"
  can_write :: "string \<Rightarrow> bool"
  utf8_ignore :: "bytes \<Rightarrow> string"
  smtp_send :: "out_message \<Rightarrow> bool"

record config =
  original_from_email :: string
  relay_to_email :: string
  invoice_string :: string

subsection \<open>\<open>merge_pdfs\<close> (lines 119-182)\<close>

fun read_all :: "(path \<rightharpoonup> bytes) \<Rightarrow> path list \<Rightarrow> error + bytes list" where
  "read_all fs [] = Inr []"
| "read_all fs (p # ps) =
     (case fs p of
        None \<Rightarrow> Inl FileNotFoundError
      | Some b \<Rightarrow>
          (case read_all fs ps of Inl e \<Rightarrow> Inl e | Inr bs \<Rightarrow> Inr (b # bs)))"

text \<open>The body of the \<open>try\<close> block: \<open>Inl\<close> is an exception raised inside it.\<close>

definition merge_pdfs_try ::
  "env \<Rightarrow> string \<Rightarrow> state \<Rightarrow> path list \<Rightarrow> string list \<Rightarrow> error + (path option \<times> state)" where
  "merge_pdfs_try e marker st pdf_paths pdf_filenames =
     (case merge_pdfs_plan marker pdf_paths pdf_filenames of
        Inl err \<Rightarrow> Inl err
      | Inr NoMerge \<Rightarrow> Inr (None, st)
      | Inr (Merge pdf_order output_name) \<Rightarrow>
          (case read_all (files st) pdf_order of
             Inl err \<Rightarrow> Inl err
           | Inr contents \<Rightarrow>
               (case pdf_concat e contents of
                  None \<Rightarrow> Inl PdfReadError
                | Some merged \<Rightarrow>
                    if \<not> can_write e output_name then Inl OSError
                    else
                      Inr (Some (MergedPdf output_name),
                           st\<lparr>files := (files st)(MergedPdf output_name \<mapsto> merged)\<rparr>))))"

text \<open>Lines 180-182: every exception is caught and \<open>None\<close> returned.\<close>

definition merge_pdfs ::
  "env \<Rightarrow> string \<Rightarrow> state \<Rightarrow> path list \<Rightarrow> string list \<Rightarrow> path option \<times> state" where
  "merge_pdfs e marker st pdf_paths pdf_filenames =
     (case merge_pdfs_try e marker st pdf_paths pdf_filenames of
        Inl err \<Rightarrow> (None, st)
      | Inr r \<Rightarrow> r)"

subsection \<open>Inbound messages\<close>

text \<open>
  What \<open>get_payload(decode=True)\<close> gives for a part. The call does not raise: for a
  payload whose transfer encoding is malformed (base64 that does not decode) the decoder
  of the standard library records a defect on the part and returns the bytes it could
  decode. \<open>Bytes b\<close>: the payload decoded to \<open>b\<close>; \<open>Malformed b\<close>: decoding met
  malformed data and returned \<open>b\<close>; \<open>PyNone\<close>: Python's \<open>None\<close>, the result for a
  part that holds subparts. \<open>relay_email\<close> never looks at the defects of a part.
\<close>

datatype payload = Bytes bytes | Malformed bytes | PyNone

text \<open>
  A part as \<open>relay_email\<close> reads it: \<open>get_content_maintype()\<close>,
  \<open>get_content_subtype()\<close>, \<open>get('Content-Disposition')\<close>, \<open>get_filename()\<close> and
  \<open>get_payload(decode=True)\<close>.
\<close>

record part =
  get_content_maintype :: string
  get_content_subtype :: string
  content_disposition :: "string option"
  get_filename :: "string option"
  get_payload :: payload

datatype mime =
    Leaf part
  | Container part "mime list"

text \<open>
  \<open>Message.walk\<close>: the part itself, then its subparts depth first.
  \<open>get_payload(decode=True)\<close> of a part that holds subparts is \<open>None\<close>.
\<close>

fun walk :: "mime \<Rightarrow> part list" where
  "walk (Leaf p) = [p]"
| "walk (Container p subparts) =
     p\<lparr>get_payload := PyNone\<rparr> # concat (map walk subparts)"

record email_message =
  subject :: "string option"
  sender :: "string option"
  root :: mime

subsection \<open>\<open>relay_email\<close> (lines 184-354)\<close>

text \<open>Lines 218-224: the parts collected into \<open>pdf_attachments\<close>.\<close>

definition is_pdf_attachment :: "part \<Rightarrow> bool" where
  "is_pdf_attachment p =
     (get_content_maintype p \<noteq> ''multipart'' \<and> content_disposition p \<noteq> None \<and>
      (case get_filename p of
         None \<Rightarrow> False
       | Some name \<Rightarrow> name \<noteq> [] \<and> endswith (lower name) ''.pdf''))"

text \<open>Lines 262 and 292: the parts written to temporary files, and attached one by one.\<close>

definition is_application_pdf :: "part \<Rightarrow> bool" where
  "is_application_pdf p =
     (get_content_maintype p = ''application'' \<and> get_content_subtype p = ''pdf'')"

text \<open>
  Lines 217-250: \<open>pdf_attachments\<close>, one decoded payload (\<open>None\<close> for Python's
  \<open>None\<close>) for each qualifying part, in walk order. The loop has no handler and no
  branch that skips a part.
\<close>

fun collect_pdf_attachments :: "part list \<Rightarrow> error + bytes option list" where
  "collect_pdf_attachments [] = Inr []"
| "collect_pdf_attachments (p # ps) =
     (if is_pdf_attachment p then
        (case get_payload p of
           PyNone \<Rightarrow>
             (case collect_pdf_attachments ps of
                Inl e \<Rightarrow> Inl e | Inr bs \<Rightarrow> Inr (None # bs))
         | Malformed b \<Rightarrow>
             (case collect_pdf_attachments ps of
                Inl e \<Rightarrow> Inl e | Inr bs \<Rightarrow> Inr (Some b # bs))
         | Bytes b \<Rightarrow>
             (case collect_pdf_attachments ps of
                Inl e \<Rightarrow> Inl e | Inr bs \<Rightarrow> Inr (Some b # bs)))
      else collect_pdf_attachments ps)"

text \<open>
  Lines 261-270. The temporary file exists from line 266 on (\<open>delete=False\<close>); its name
  is appended to \<open>pdf_paths\<close> at line 268, after the write of line 267. The result is
  the exception raised (if any), \<open>pdf_paths\<close>, \<open>pdf_filenames\<close> and the store.
\<close>

fun materialize ::
  "part list \<Rightarrow> path list \<Rightarrow> string list \<Rightarrow> state \<Rightarrow>
     error option \<times> path list \<times> string list \<times> state" where
  "materialize [] pdf_paths pdf_filenames st = (None, pdf_paths, pdf_filenames, st)"
| "materialize (p # ps) pdf_paths pdf_filenames st =
     (if is_application_pdf p then
        (case get_filename p of
           None \<Rightarrow> materialize ps pdf_paths pdf_filenames st
         | Some name \<Rightarrow>
             if name = [] then materialize ps pdf_paths pdf_filenames st
             else
               let temp_pdf = TempPdf (next_temp st);
                   st1 = st\<lparr>files := (files st)(temp_pdf \<mapsto> []),
                            next_temp := Suc (next_temp st)\<rparr>
               in (case get_payload p of
                     PyNone \<Rightarrow> (Some TypeError, pdf_paths, pdf_filenames, st1)
                   | Malformed b \<Rightarrow>
                       materialize ps (pdf_paths @ [temp_pdf]) (pdf_filenames @ [name])
                         (st1\<lparr>files := (files st1)(temp_pdf \<mapsto> b)\<rparr>)
                   | Bytes b \<Rightarrow>
                       materialize ps (pdf_paths @ [temp_pdf]) (pdf_filenames @ [name])
                         (st1\<lparr>files := (files st1)(temp_pdf \<mapsto> b)\<rparr>)))
      else materialize ps pdf_paths pdf_filenames st)"

text \<open>Lines 273-277, the \<open>finally\<close> block.\<close>

definition unlink_all :: "path list \<Rightarrow> state \<Rightarrow> state" where
  "unlink_all pdf_paths st =
     st\<lparr>files := fold (\<lambda>pdf_path fs. fs(pdf_path := None)) pdf_paths (files st)\<rparr>"

text \<open>
  Lines 255-277: the merge attempt with its cleanup. An exception raised while the
  temporary files are written passes through the \<open>finally\<close> block.
\<close>

definition merge_attempt ::
  "env \<Rightarrow> string \<Rightarrow> state \<Rightarrow> part list \<Rightarrow> bytes option list \<Rightarrow>
     (error + path option) \<times> state" where
  "merge_attempt e marker st parts pdf_attachments =
     (if length pdf_attachments > 1 then
        (case materialize parts [] [] st of
           (Some err, pdf_paths, pdf_filenames, st1) \<Rightarrow>
             (Inl err, unlink_all pdf_paths st1)
         | (None, pdf_paths, pdf_filenames, st1) \<Rightarrow>
             (case merge_pdfs e marker st1 pdf_paths pdf_filenames of
                (merged_pdf_path, st2) \<Rightarrow>
                  (Inr merged_pdf_path, unlink_all pdf_paths st2)))
      else (Inr None, st))"

text \<open>Lines 291-296: one attachment for every \<open>application/pdf\<close> part.\<close>

fun attach_individual :: "part list \<Rightarrow> error + out_part list" where
  "attach_individual [] = Inr []"
| "attach_individual (p # ps) =
     (if is_application_pdf p then
        (case get_payload p of
           PyNone \<Rightarrow> Inl TypeError
         | Malformed b \<Rightarrow>
             (case attach_individual ps of
                Inl e \<Rightarrow> Inl e
              | Inr out \<Rightarrow>
                  Inr (MIMEApplication b
                         (case get_filename p of
                            None \<Rightarrow> ''attachment.pdf''
                          | Some name \<Rightarrow> if name = [] then ''attachment.pdf'' else name)
                       # out))
         | Bytes b \<Rightarrow>
             (case attach_individual ps of
                Inl e \<Rightarrow> Inl e
              | Inr out \<Rightarrow>
                  Inr (MIMEApplication b
                         (case get_filename p of
                            None \<Rightarrow> ''attachment.pdf''
                          | Some name \<Rightarrow> if name = [] then ''attachment.pdf'' else name)
                       # out)))
      else attach_individual ps)"

text \<open>
  Lines 280-296. The merged attachment is named by \<open>os.path.basename\<close> of the path
  (line 286). \<open>merge_pdfs\<close> returns no path of a temporary file; those are deleted
  by then.
\<close>

definition attach_pdfs ::
  "state \<Rightarrow> part list \<Rightarrow> bytes option list \<Rightarrow> path option \<Rightarrow> error + out_part list" where
  "attach_pdfs st parts pdf_attachments merged_pdf_path =
     (if pdf_attachments = [] then Inr []
      else
        (case merged_pdf_path of
           Some (MergedPdf output_name) \<Rightarrow>
             (case files st (MergedPdf output_name) of
                None \<Rightarrow> Inl FileNotFoundError
              | Some merged_pdf_content \<Rightarrow>
                  Inr [MIMEApplication merged_pdf_content (basename output_name)])
         | Some (TempPdf n) \<Rightarrow> Inl FileNotFoundError
         | None \<Rightarrow> attach_individual parts))"

text \<open>
  Lines 299-308: the loop over the parts with its two variables \<open>body\<close> and
  \<open>body_type\<close>; the \<open>text/plain\<close> branch leaves the loop.
\<close>

definition decode_text :: "env \<Rightarrow> part \<Rightarrow> error + string" where
  "decode_text e p =
     (case get_payload p of
        PyNone \<Rightarrow> Inl AttributeError
      | Malformed b \<Rightarrow> Inr (utf8_ignore e b)
      | Bytes b \<Rightarrow> Inr (utf8_ignore e b))"

fun extract_body :: "env \<Rightarrow> part list \<Rightarrow> string \<Rightarrow> string \<Rightarrow> error + (string \<times> string)" where
  "extract_body e [] body body_type = Inr (body, body_type)"
| "extract_body e (p # ps) body body_type =
     (if get_content_maintype p = ''text'' \<and> get_content_subtype p = ''plain'' then
        (case decode_text e p of
           Inl err \<Rightarrow> Inl err
         | Inr text \<Rightarrow> Inr (text, body_type))
      else if get_content_maintype p = ''text'' \<and> get_content_subtype p = ''html'' \<and> body = []
      then
        (case decode_text e p of
           Inl err \<Rightarrow> Inl err
         | Inr text \<Rightarrow> extract_body e ps text ''html'')
      else extract_body e ps body body_type)"

text \<open>Lines 188-198: the headers of the new message.\<close>

definition new_message :: "config \<Rightarrow> email_message \<Rightarrow> out_message" where
  "new_message cfg email =
     \<lparr>hdr_from = original_from_email cfg,
      hdr_to = relay_to_email cfg,
      hdr_subject =
        (case subject email of
           None \<Rightarrow> ''Relayed Email''
         | Some s \<Rightarrow> if s = [] then ''Relayed Email'' else s),
      hdr_x_original_sender =
        (case sender email of None \<Rightarrow> ''Unknown Sender'' | Some s \<Rightarrow> s),
      attached = []\<rparr>"

text \<open>
  Lines 186-312: the message built before it is sent, and the store after the merge
  attempt. \<open>Inl\<close> is an exception on its way to the handler of line 352.
\<close>

definition compose :: "env \<Rightarrow> config \<Rightarrow> state \<Rightarrow> email_message \<Rightarrow> (error + out_message) \<times> state" where
  "compose e cfg st email =
     (let parts = walk (root email) in
      case collect_pdf_attachments parts of
        Inl err \<Rightarrow> (Inl err, st)
      | Inr pdf_attachments \<Rightarrow>
          (case merge_attempt e (invoice_string cfg) st parts pdf_attachments of
             (Inl err, st1) \<Rightarrow> (Inl err, st1)
           | (Inr merged_pdf_path, st1) \<Rightarrow>
               (case attach_pdfs st1 parts pdf_attachments merged_pdf_path of
                  Inl err \<Rightarrow> (Inl err, st1)
                | Inr pdf_parts \<Rightarrow>
                    (case extract_body e parts [] ''plain'' of
                       Inl err \<Rightarrow> (Inl err, st1)
                     | Inr (body, body_type) \<Rightarrow>
                         (Inr ((new_message cfg email)
                                 \<lparr>attached :=
                                    pdf_parts @
                                    (if body = [] then [] else [MIMEText body body_type])\<rparr>),
                          st1)))))"

text \<open>
  \<open>relay_email\<close>: \<open>Some\<close> the message sent, or \<open>None\<close> when the handler of line 352
  (any exception while composing) or of line 339 (SMTP) returns \<open>None\<close>.
\<close>

definition relay_email :: "env \<Rightarrow> config \<Rightarrow> state \<Rightarrow> email_message \<Rightarrow> out_message option \<times> state" where
  "relay_email e cfg st email =
     (case compose e cfg st email of
        (Inl err, st1) \<Rightarrow> (None, st1)
      | (Inr msg, st1) \<Rightarrow> (if smtp_send e msg then Some msg else None, st1))"

text \<open>The PDF attachments of an outbound message (its body part is not one).\<close>

fun pdf_attachments_of :: "out_part list \<Rightarrow> (string \<times> bytes) list" where
  "pdf_attachments_of [] = []"
| "pdf_attachments_of (MIMEApplication b name # ps) = (name, b) # pdf_attachments_of ps"
| "pdf_attachments_of (MIMEText body body_type # ps) = pdf_attachments_of ps"

text \<open>The body part of an outbound message: its text and its subtype.\<close>

fun body_of :: "out_part list \<Rightarrow> (string \<times> string) option" where
  "body_of [] = None"
| "body_of (MIMEApplication b name # ps) = body_of ps"
| "body_of (MIMEText body body_type # ps) = Some (body, body_type)"

subsection \<open>Vocabulary of the statements\<close>

text \<open>
  A merge source is a part that lines 262-265 write to a temporary file: an
  \<open>application/pdf\<close> part with a non-empty filename.
\<close>

definition is_merge_source :: "part \<Rightarrow> bool" where
  "is_merge_source p =
     (is_application_pdf p \<and>
      (case get_filename p of None \<Rightarrow> False | Some name \<Rightarrow> name \<noteq> []))"

definition payload_is_bytes :: "part \<Rightarrow> bool" where
  "payload_is_bytes p =
     (case get_payload p of Bytes b \<Rightarrow> True | Malformed b \<Rightarrow> True | PyNone \<Rightarrow> False)"


text \<open>
  The same part, and the same message, with every malformed payload replaced by a
  well-formed payload of the same bytes.
\<close>

definition as_well_formed :: "part \<Rightarrow> part" where
  "as_well_formed p =
     (case get_payload p of
        Malformed b \<Rightarrow> p\<lparr>get_payload := Bytes b\<rparr>
      | Bytes b \<Rightarrow> p
      | PyNone \<Rightarrow> p)"


subsection \<open>Concrete messages\<close>

text \<open>
  A well-behaved environment: the PDF library concatenates, plain names can be written
  into \<open>temp_merged_pdfs\<close> (which has no subdirectories), SMTP accepts.
\<close>

definition env_ok :: env where
  "env_ok = \<lparr>pdf_concat = (\<lambda>bs. Some (concat bs)),
             can_write = (\<lambda>name. name \<noteq> [] \<and> name \<noteq> ''.'' \<and> name \<noteq> ''..''
                                  \<and> CHR ''/'' \<notin> set name),
             utf8_ignore = (\<lambda>b. b), smtp_send = (\<lambda>m. True)\<rparr>"

text \<open>A PDF library that rejects its input (a corrupt source).\<close>

definition env_corrupt :: env where
  "env_corrupt = \<lparr>pdf_concat = (\<lambda>bs. None),
                  can_write = (\<lambda>name. name \<noteq> [] \<and> name \<noteq> ''.'' \<and> name \<noteq> ''..''
                                       \<and> CHR ''/'' \<notin> set name),
                  utf8_ignore = (\<lambda>b. b), smtp_send = (\<lambda>m. True)\<rparr>"

definition cfg0 :: config where
  "cfg0 = \<lparr>original_from_email = ''billing@example.org'',
           relay_to_email = ''archive@example.org'',
           invoice_string = ''invoice''\<rparr>"

definition st0 :: state where
  "st0 = \<lparr>files = Map.empty, next_temp = 0\<rparr>"

definition multipart :: "string \<Rightarrow> part" where
  "multipart sub =
     \<lparr>get_content_maintype = ''multipart'', get_content_subtype = sub,
      content_disposition = None, get_filename = None, get_payload = PyNone\<rparr>"

definition text_part :: "string \<Rightarrow> bytes \<Rightarrow> part" where
  "text_part sub content =
     \<lparr>get_content_maintype = ''text'', get_content_subtype = sub,
      content_disposition = None, get_filename = None, get_payload = Bytes content\<rparr>"

text \<open>An attachment of type \<open>application/pdf\<close>.\<close>

definition pdf_part :: "string \<Rightarrow> bytes \<Rightarrow> part" where
  "pdf_part name content =
     \<lparr>get_content_maintype = ''application'', get_content_subtype = ''pdf'',
      content_disposition = Some ''attachment'', get_filename = Some name,
      get_payload = Bytes content\<rparr>"

text \<open>A PDF sent as \<open>application/octet-stream\<close>, as many mail clients do.\<close>

definition octet_part :: "string \<Rightarrow> bytes \<Rightarrow> part" where
  "octet_part name content =
     \<lparr>get_content_maintype = ''application'', get_content_subtype = ''octet-stream'',
      content_disposition = Some ''attachment'', get_filename = Some name,
      get_payload = Bytes content\<rparr>"

definition mail :: "mime list \<Rightarrow> email_message" where
  "mail subparts =
     \<lparr>subject = Some ''Your documents'', sender = Some ''alice@example.org'',
      root = Container (multipart ''mixed'') subparts\<rparr>"

definition mail_two_pdfs :: email_message where
  "mail_two_pdfs =
     mail [Leaf (text_part ''plain'' ''hello''),
           Leaf (pdf_part ''b.pdf'' ''B''), Leaf (pdf_part ''a.pdf'' ''A'')]"

definition mail_octet_pdfs :: email_message where
  "mail_octet_pdfs =
     mail [Leaf (octet_part ''a.pdf'' ''A''), Leaf (octet_part ''b.pdf'' ''B'')]"

definition mail_html_first :: email_message where
  "mail_html_first =
     mail [Leaf (text_part ''html'' ''<p>hi</p>''), Leaf (text_part ''plain'' ''hi'')]"



definition mail_mixed_types :: email_message where
  "mail_mixed_types =
     mail [Leaf (pdf_part ''a.pdf'' ''A''), Leaf (pdf_part ''b.pdf'' ''B''),
           Leaf (octet_part ''c.pdf'' ''C'')]"

section \<open>Properties of the merge decision\<close>

subsection \<open>Auxiliary facts\<close>

lemma str_contains_iff: "str_contains m s \<longleftrightarrow> (\<exists>p q. s = p @ m @ q)"
proof (induction s)
  case Nil
  then show ?case by auto
next
  case (Cons c cs)
  have "(\<exists>p q. c # cs = p @ m @ q) \<longleftrightarrow>
        (take (length m) (c # cs) = m \<or> (\<exists>p q. cs = p @ m @ q))"
  proof
    assume "\<exists>p q. c # cs = p @ m @ q"
    then obtain p q where pq: "c # cs = p @ m @ q" by blast
    show "take (length m) (c # cs) = m \<or> (\<exists>p q. cs = p @ m @ q)"
    proof (cases p)
      case Nil
      with pq show ?thesis by simp
    next
      case (Cons a p')
      with pq have "cs = p' @ m @ q" by simp
      then show ?thesis by blast
    qed
  next
    assume "take (length m) (c # cs) = m \<or> (\<exists>p q. cs = p @ m @ q)"
    then show "\<exists>p q. c # cs = p @ m @ q"
    proof
      assume "take (length m) (c # cs) = m"
      then have "c # cs = [] @ m @ drop (length m) (c # cs)"
        by (metis append_Nil append_take_drop_id)
      then show ?thesis by blast
    next
      assume "\<exists>p q. cs = p @ m @ q"
      then obtain p q where "cs = p @ m @ q" by blast
      then have "c # cs = (c # p) @ m @ q" by simp
      then show ?thesis by blast
    qed
  qed
  with Cons show ?case by simp
qed

lemma insort_key_map:
  "insort_key f (g x) (map g xs) = map g (insort_key (\<lambda>a. f (g a)) x xs)"
  by (induction xs) auto

lemma sort_key_map: "sort_key f (map g xs) = map g (sort_key (\<lambda>a. f (g a)) xs)"
  by (induction xs) (auto simp: insort_key_map)

lemma filter_nth_upt:
  "map ((!) xs) (filter (\<lambda>i. P (xs ! i)) [0..<length xs]) = filter P xs"
proof -
  have "filter P xs = filter P (map ((!) xs) [0..<length xs])"
    by (simp add: map_nth)
  also have "\<dots> = map ((!) xs) (filter (P \<circ> (!) xs) [0..<length xs])"
    by (rule filter_map)
  finally show ?thesis by (simp add: comp_def)
qed

lemma sorted_hd_Min: "sorted xs \<Longrightarrow> xs \<noteq> [] \<Longrightarrow> hd xs = Min (set xs)"
  by (cases xs) (auto intro!: Min_eqI[symmetric])

lemma length_invoice_pdf_indices:
  assumes "m \<noteq> []"
  shows "length (invoice_pdf_indices m fns) = length (filter (str_contains m) fns)"
proof -
  have "length (filter (str_contains m) fns)
      = length (map ((!) fns) (filter (\<lambda>i. str_contains m (fns ! i)) [0..<length fns]))"
    by (simp only: filter_nth_upt)
  with assms show ?thesis by (simp add: invoice_pdf_indices_def)
qed

lemma invoice_pdf_indices_empty_marker: "invoice_pdf_indices [] fns = []"
  by (simp add: invoice_pdf_indices_def)

lemma invoice_pdf_indices_no_match:
  assumes "filter (str_contains m) fns = []"
  shows "invoice_pdf_indices m fns = []"
proof (cases "m = []")
  case True
  then show ?thesis by (simp add: invoice_pdf_indices_empty_marker)
next
  case False
  from length_invoice_pdf_indices[OF False, of fns] assms show ?thesis by simp
qed

lemma invoice_pdf_indices_single:
  assumes "m \<noteq> []" "k < length fns" "str_contains m (fns ! k)"
    and "length (filter (str_contains m) fns) = 1"
  shows "invoice_pdf_indices m fns = [k]"
proof -
  have "length (invoice_pdf_indices m fns) = 1"
    using assms by (simp add: length_invoice_pdf_indices)
  moreover have "k \<in> set (invoice_pdf_indices m fns)"
    using assms by (simp add: invoice_pdf_indices_def)
  ultimately show ?thesis
    by (cases "invoice_pdf_indices m fns") auto
qed

lemma zip_as_map_upt:
  "length ps = length fns \<Longrightarrow> map (\<lambda>i. (ps ! i, fns ! i)) [0..<length fns] = zip ps fns"
  by (rule nth_equalityI) auto

lemma filter_neq_upt:
  assumes "k < n"
  shows "filter (\<lambda>i. i \<noteq> k) [0..<n] = [0..<k] @ [Suc k..<n]"
proof -
  from assms have "[0..<n] = [0..<k] @ k # [Suc k..<n]"
    by (metis less_imp_le_nat upt_add_eq_append upt_conv_Cons le0 le_add_diff_inverse)
  then show ?thesis by (simp add: filter_empty_conv)
qed

lemma zip_without_as_map:
  assumes "length ps = length fns" "k < length fns"
  shows "map (\<lambda>i. (ps ! i, fns ! i)) ([0..<k] @ [Suc k..<length fns])
       = zip (take k ps @ drop (Suc k) ps) (take k fns @ drop (Suc k) fns)"
proof -
  have a: "map (\<lambda>i. (ps ! i, fns ! i)) [0..<k] = zip (take k ps) (take k fns)"
    using assms by (intro nth_equalityI) auto
  have b: "map (\<lambda>i. (ps ! i, fns ! i)) [Suc k..<length fns]
         = zip (drop (Suc k) ps) (drop (Suc k) fns)"
    using assms by (intro nth_equalityI) auto
  show ?thesis using assms by (simp add: a b)
qed

lemma map_nth_sort_key:
  "map (\<lambda>i. ps ! i) (sort_key (\<lambda>i. fns ! i) js)
     = map fst (sort_key snd (map (\<lambda>i. (ps ! i, fns ! i)) js))"
  by (simp add: sort_key_map comp_def)

lemma map_nth_upt_positions:
  "list_all (\<lambda>i. i < n) js \<Longrightarrow>
     map (\<lambda>i. ps ! ([0..<n] ! i)) js = map (\<lambda>i. ps ! i) js"
  by (induction js) auto

lemma merge_pdfs_plan_positions:
  "merge_pdfs_plan marker ps fns
     = map_sum id (map_merge_plan (\<lambda>i. ps ! i) id)
         (merge_pdfs_plan marker [0..<length ps] fns)"
proof (cases "invoice_pdf_indices marker fns")
  case Nil
  then show ?thesis
    by (simp add: merge_pdfs_plan_def Let_def map_nth_upt_positions comp_def
          split: list.splits del: sort_key_simps)
next
  case (Cons ii rest)
  have "list_all (\<lambda>i. i < length ps)
          (sort_key (\<lambda>i. fns ! i) (filter (\<lambda>i. i \<noteq> ii) [0..<length ps]))"
    by (simp add: list_all_iff)
  then show ?thesis using Cons
    by (simp add: merge_pdfs_plan_def Let_def map_nth_upt_positions comp_def
          del: sort_key_simps)
qed

subsection \<open>The claims about the merge decision\<close>

text \<open>
  In the statements below a candidate list is the pair of \<open>pdf_paths\<close> (\<open>ps\<close>) and
  \<open>pdf_filenames\<close> (\<open>fns\<close>), of equal length as the caller builds them; the candidates
  are \<open>zip ps fns\<close>. \<open>sort_key snd\<close> is the stable insertion sort of \<open>HOL.List\<close> on the
  filename component (its result is sorted by \<open>sorted_sort_key\<close>), and the lists of
  characters are ordered lexicographically.
\<close>

text \<open>
  Claim C1. For a candidate list of length at least two in which exactly one filename,
  at position \<open>k\<close>, contains the non-empty invoice marker, the plan puts candidate \<open>k\<close>
  first, then all the other candidates sorted ascending by filename, and the output
  filename is the filename of candidate \<open>k\<close>.
\<close>

theorem merge_plan_single_invoice:
  assumes len: "length ps = length fns" "2 \<le> length ps"
    and marker: "marker \<noteq> []"
    and k: "k < length fns" "str_contains marker (fns ! k)"
    and one: "length (filter (str_contains marker) fns) = 1"
  shows "merge_pdfs_plan marker ps fns
       = Inr (Merge
           (ps ! k #
            map fst (sort_key snd
              (zip (take k ps @ drop (Suc k) ps) (take k fns @ drop (Suc k) fns))))
           (fns ! k))"
proof -
  let ?others = "filter (\<lambda>i. i \<noteq> k) [0..<length ps]"
  have idx: "invoice_pdf_indices marker fns = [k]"
    using marker k one by (rule invoice_pdf_indices_single)
  have all: "list_all (\<lambda>i. i < length fns) ?others"
    using len by (simp add: list_all_iff)
  have others: "?others = [0..<k] @ [Suc k..<length fns]"
    using len k by (simp add: filter_neq_upt)
  have srcs: "map (\<lambda>i. ps ! i) (sort_key (\<lambda>i. fns ! i) ?others)
      = map fst (sort_key snd
          (zip (take k ps @ drop (Suc k) ps) (take k fns @ drop (Suc k) fns)))"
  proof -
    have "map (\<lambda>i. (ps ! i, fns ! i)) ?others
        = zip (take k ps @ drop (Suc k) ps) (take k fns @ drop (Suc k) fns)"
      using zip_without_as_map[OF len(1) k(1)] by (simp only: others)
    then show ?thesis by (simp only: map_nth_sort_key)
  qed
  show ?thesis
    using len k idx all srcs
    by (simp add: merge_pdfs_plan_def Let_def del: sort_key_simps)
qed

theorem merge_plan_single_invoice_witness:
  "merge_pdfs_plan ''invoice'' [TempPdf 0, TempPdf 1, TempPdf 2]
     [''receipt.pdf'', ''invoice_123.pdf'', ''note.pdf'']
   = Inr (Merge [TempPdf 1, TempPdf 2, TempPdf 0] ''invoice_123.pdf'')"
proof -
  have one: "length (filter (str_contains ''invoice'')
               [''receipt.pdf'', ''invoice_123.pdf'', ''note.pdf'']) = 1"
    by simp
  have k: "str_contains ''invoice''
             ([''receipt.pdf'', ''invoice_123.pdf'', ''note.pdf''] ! 1)"
    by simp
  show ?thesis
    using merge_plan_single_invoice
            [of "[TempPdf 0, TempPdf 1, TempPdf 2]"
                "[''receipt.pdf'', ''invoice_123.pdf'', ''note.pdf'']" "''invoice''" 1,
             OF _ _ _ _ k one]
    by simp
qed

text \<open>
  Claim C2. For a candidate list of length at least two in which no filename contains
  the invoice marker, or whose marker is empty, the plan is all candidates sorted
  ascending by filename, and the output filename is the least filename.
\<close>

theorem merge_plan_no_invoice:
  assumes len: "length ps = length fns" "2 \<le> length ps"
    and nomatch: "marker = [] \<or> filter (str_contains marker) fns = []"
  shows "merge_pdfs_plan marker ps fns
       = Inr (Merge (map fst (sort_key snd (zip ps fns))) (Min (set fns)))"
proof -
  let ?s = "sort_key (\<lambda>i. fns ! i) [0..<length fns]"
  have idx: "invoice_pdf_indices marker fns = []"
    using nomatch
    by (auto simp: invoice_pdf_indices_empty_marker invoice_pdf_indices_no_match)
  have all: "list_all (\<lambda>i. i < length ps) ?s"
    using len by (simp add: list_all_iff)
  have ne: "?s \<noteq> []"
    using len by (auto simp flip: length_0_conv)
  then obtain first rest where s: "?s = first # rest"
    by (cases ?s) auto
  have srcs: "map (\<lambda>i. ps ! i) ?s = map fst (sort_key snd (zip ps fns))"
    using len by (simp only: map_nth_sort_key zip_as_map_upt)
  have "map (\<lambda>i. fns ! i) ?s \<noteq> []"
    using ne by simp
  moreover have "sorted (map (\<lambda>i. fns ! i) ?s)"
    by (rule sorted_sort_key)
  ultimately have "hd (map (\<lambda>i. fns ! i) ?s) = Min (set (map (\<lambda>i. fns ! i) ?s))"
    by (rule sorted_hd_Min[rotated])
  moreover have "set (map (\<lambda>i. fns ! i) ?s) = set fns"
  proof -
    have "set (map (\<lambda>i. fns ! i) ?s) = set (map (\<lambda>i. fns ! i) [0..<length fns])"
      by simp
    then show ?thesis by (simp only: map_nth)
  qed
  ultimately have name: "fns ! first = Min (set fns)"
    using s by simp
  show ?thesis
    using len idx all s srcs name
    by (simp add: merge_pdfs_plan_def Let_def del: sort_key_simps)
qed

theorem merge_plan_no_invoice_witness:
  "merge_pdfs_plan '''' [TempPdf 0, TempPdf 1] [''b.pdf'', ''a.pdf'']
     = Inr (Merge [TempPdf 1, TempPdf 0] ''a.pdf'')
   \<and> merge_pdfs_plan ''invoice'' [TempPdf 0, TempPdf 1, TempPdf 2]
       [''c.pdf'', ''b.pdf'', ''a.pdf'']
     = Inr (Merge [TempPdf 2, TempPdf 1, TempPdf 0] ''a.pdf'')"
  using merge_plan_no_invoice [of "[TempPdf 0, TempPdf 1]" "[''b.pdf'', ''a.pdf'']" "''''"]
    merge_plan_no_invoice
      [of "[TempPdf 0, TempPdf 1, TempPdf 2]" "[''c.pdf'', ''b.pdf'', ''a.pdf'']" "''invoice''"]
  by simp

text \<open>
  Claim C3. When more than one filename contains the non-empty invoice marker, the
  decision is \<open>NoMerge\<close>: \<open>merge_pdfs\<close> returns \<open>None\<close> by the \<open>return\<close> of line 141
  (the \<open>try\<close> block raises nothing) and writes no merged file.
\<close>

theorem merge_ambiguous_invoice:
  assumes "marker \<noteq> []" "1 < length (filter (str_contains marker) fns)"
  shows "merge_pdfs_plan marker ps fns = Inr NoMerge
       \<and> merge_pdfs_try e marker st ps fns = Inr (None, st)
       \<and> merge_pdfs e marker st ps fns = (None, st)"
proof -
  have "merge_pdfs_plan marker ps fns = Inr NoMerge"
    using assms by (simp add: merge_pdfs_plan_def length_invoice_pdf_indices Let_def)
  then show ?thesis
    by (simp add: merge_pdfs_try_def merge_pdfs_def)
qed

theorem merge_ambiguous_invoice_witness:
  "merge_pdfs_plan ''invoice'' [TempPdf 0, TempPdf 1] [''invoice_1.pdf'', ''invoice_2.pdf'']
     = Inr NoMerge
   \<and> merge_pdfs_try \<lparr>pdf_concat = \<lambda>bs. Some (concat bs), can_write = \<lambda>name. True,
                       utf8_ignore = \<lambda>b. b,
                       smtp_send = \<lambda>m. True\<rparr>
         ''invoice''
         \<lparr>files = [TempPdf 0 \<mapsto> ''A'', TempPdf 1 \<mapsto> ''B''], next_temp = 2\<rparr>
         [TempPdf 0, TempPdf 1] [''invoice_1.pdf'', ''invoice_2.pdf'']
     = Inr (None, \<lparr>files = [TempPdf 0 \<mapsto> ''A'', TempPdf 1 \<mapsto> ''B''], next_temp = 2\<rparr>)"
proof -
  have two: "1 < length (filter (str_contains ''invoice'')
                           [''invoice_1.pdf'', ''invoice_2.pdf''])"
    by simp
  show ?thesis
    using merge_ambiguous_invoice
            [of "''invoice''" "[''invoice_1.pdf'', ''invoice_2.pdf'']"
                "[TempPdf 0, TempPdf 1]"
                "\<lparr>pdf_concat = \<lambda>bs. Some (concat bs), can_write = \<lambda>name. True,
                       utf8_ignore = \<lambda>b. b,
                  smtp_send = \<lambda>m. True\<rparr>"
                "\<lparr>files = [TempPdf 0 \<mapsto> ''A'', TempPdf 1 \<mapsto> ''B''], next_temp = 2\<rparr>",
             OF _ two]
    by simp
qed

text \<open>
  Claim C4. For a candidate list of length 0 or 1 the decision is \<open>NoMerge\<close>, whatever
  the marker and the filenames: \<open>merge_pdfs\<close> returns \<open>None\<close> at line 133.
\<close>

theorem merge_at_most_one_candidate:
  assumes "length ps \<le> 1"
  shows "merge_pdfs_plan marker ps fns = Inr NoMerge
       \<and> merge_pdfs_try e marker st ps fns = Inr (None, st)
       \<and> merge_pdfs e marker st ps fns = (None, st)"
proof -
  have "merge_pdfs_plan marker ps fns = Inr NoMerge"
    using assms by (simp add: merge_pdfs_plan_def)
  then show ?thesis
    by (simp add: merge_pdfs_try_def merge_pdfs_def)
qed

theorem merge_at_most_one_candidate_witness:
  "merge_pdfs_plan ''invoice'' [TempPdf 0] [''invoice.pdf''] = Inr NoMerge
   \<and> merge_pdfs_plan ''invoice'' ([] :: path list) [] = Inr NoMerge"
  using merge_at_most_one_candidate [of "[TempPdf 0]" "''invoice''" "[''invoice.pdf'']"]
    merge_at_most_one_candidate [of "[] :: path list" "''invoice''" "[]"]
  by simp

text \<open>
  Claim C10. The decision reads the sources only through their number: for two source
  lists of the same length, with the same filenames and the same marker, both plans are
  the images of one plan over the positions \<open>0, \<dots>, length ps - 1\<close>, so the order (as a
  list of positions) and the output filename agree. The decision is a function of its
  arguments, so repeated runs agree.
\<close>

theorem merge_plan_ignores_contents:
  assumes "length ps = length qs"
  shows "merge_pdfs_plan marker ps fns
         = map_sum id (map_merge_plan (\<lambda>i. ps ! i) id)
             (merge_pdfs_plan marker [0..<length ps] fns)
       \<and> merge_pdfs_plan marker qs fns
         = map_sum id (map_merge_plan (\<lambda>i. qs ! i) id)
             (merge_pdfs_plan marker [0..<length ps] fns)"
  using assms merge_pdfs_plan_positions [of marker ps fns]
    merge_pdfs_plan_positions [of marker qs fns]
  by simp

theorem merge_plan_ignores_contents_witness:
  "merge_pdfs_plan ''invoice'' [''r1'', ''i1'', ''n1'']
       [''receipt.pdf'', ''invoice_123.pdf'', ''note.pdf'']
     = Inr (Merge [''i1'', ''n1'', ''r1''] ''invoice_123.pdf'')
   \<and> merge_pdfs_plan ''invoice'' [''r2'', ''i2'', ''n2'']
       [''receipt.pdf'', ''invoice_123.pdf'', ''note.pdf'']
     = Inr (Merge [''i2'', ''n2'', ''r2''] ''invoice_123.pdf'')"
proof -
  have len: "length [''r1'', ''i1'', ''n1''] = length [''r2'', ''i2'', ''n2'']"
    by simp
  have pos: "merge_pdfs_plan ''invoice'' [0 ..< length [''r1'', ''i1'', ''n1'']]
               [''receipt.pdf'', ''invoice_123.pdf'', ''note.pdf'']
             = Inr (Merge [1, 2, 0] ''invoice_123.pdf'')"
    by (simp add: merge_pdfs_plan_def invoice_pdf_indices_def upt_rec)
  show ?thesis
    using merge_plan_ignores_contents
            [OF len, of "''invoice''" "[''receipt.pdf'', ''invoice_123.pdf'', ''note.pdf'']"]
    unfolding pos by simp
qed

section \<open>Properties of \<open>relay_email\<close>\<close>

subsection \<open>Auxiliary facts\<close>

lemmas relay_defs = relay_email_def compose_def merge_attempt_def attach_pdfs_def
  new_message_def decode_text_def unlink_all_def merge_pdfs_def merge_pdfs_try_def
  merge_pdfs_plan_def invoice_pdf_indices_def is_pdf_attachment_def is_application_pdf_def
  lower_def lower_char_def endswith_def basename_def Let_def

lemma fold_unlink:
  "fold (\<lambda>pdf_path fs. fs(pdf_path := None)) ps fs p
     = (if p \<in> set ps then None else fs p)"
  by (induction ps arbitrary: fs) auto

lemma unlink_all_files: "p \<in> set ps \<Longrightarrow> files (unlink_all ps st) p = None"
  by (simp add: unlink_all_def fold_unlink)

lemma unlink_all_next_temp: "next_temp (unlink_all ps st) = next_temp st"
  by (simp add: unlink_all_def)

lemma merge_pdfs_next_temp: "next_temp (snd (merge_pdfs e m st ps fns)) = next_temp st"
  by (simp add: merge_pdfs_def merge_pdfs_try_def
        split: sum.splits merge_plan.splits option.splits)

lemma materialize_completes:
  "list_all (\<lambda>p. \<not> is_merge_source p \<or> payload_is_bytes p) parts \<Longrightarrow>
     fst (materialize parts ps fns st) = None"
proof (induction parts arbitrary: ps fns st)
  case Nil
  then show ?case by simp
next
  case (Cons q qs)
  then show ?case
    by (auto simp: is_merge_source_def payload_is_bytes_def Let_def
          split: option.splits payload.splits)
qed

text \<open>
  When the loop of lines 261-270 completes, \<open>pdf_paths\<close> holds exactly the temporary
  files created.
\<close>

lemma materialize_paths:
  "materialize parts ps fns st = (None, ps', fns', st') \<Longrightarrow>
     next_temp st \<le> next_temp st' \<and>
     set ps' = set ps \<union> TempPdf ` {next_temp st ..< next_temp st'}"
proof (induction parts arbitrary: ps fns st)
  case Nil
  then show ?case by simp
next
  case (Cons q qs)
  show ?case
  proof (cases "is_merge_source q")
    case False
    with Cons.prems have "materialize qs ps fns st = (None, ps', fns', st')"
      by (auto simp: is_merge_source_def split: option.splits if_splits)
    then show ?thesis by (rule Cons.IH)
  next
    case True
    then obtain name
      where name: "get_filename q = Some name" "name \<noteq> []" "is_application_pdf q"
      by (auto simp: is_merge_source_def split: option.splits)
    with Cons.prems obtain b
      where b: "get_payload q = Bytes b \<or> get_payload q = Malformed b"
      by (cases "get_payload q") (auto simp: Let_def)
    let ?tmp = "TempPdf (next_temp st)"
    let ?st1 = "st\<lparr>next_temp := Suc (next_temp st),
                   files := (files st)(?tmp \<mapsto> b)\<rparr>"
    have step: "materialize (q # qs) ps fns st
                = materialize qs (ps @ [?tmp]) (fns @ [name]) ?st1"
      using name b by (auto simp: Let_def)
    have "materialize qs (ps @ [?tmp]) (fns @ [name]) ?st1 = (None, ps', fns', st')"
      using Cons.prems unfolding step .
    from Cons.IH[OF this]
    have le: "Suc (next_temp st) \<le> next_temp st'"
      and eq: "set ps' = set (ps @ [?tmp])
                 \<union> TempPdf ` {Suc (next_temp st) ..< next_temp st'}"
      by simp_all
    have "{next_temp st ..< next_temp st'}
        = insert (next_temp st) {Suc (next_temp st) ..< next_temp st'}"
      using le by auto
    with le eq show ?thesis by auto
  qed
qed

subsection \<open>What the relayed message carries\<close>

text \<open>
  The number of PDF attachments of the message built by lines 280-296: none when nothing
  was collected, one after a merge, and otherwise one for every \<open>application/pdf\<close>
  part, which is the number of collected parts only where both selections agree.
\<close>

lemma collect_pdf_attachments_length:
  "collect_pdf_attachments parts = Inr atts \<Longrightarrow>
     length atts = length (filter is_pdf_attachment parts)"
  by (induction parts arbitrary: atts)
     (auto split: if_splits payload.splits sum.splits)

lemma attach_individual_length:
  "attach_individual parts = Inr out \<Longrightarrow>
     length (pdf_attachments_of out) = length (filter is_application_pdf parts)"
  by (induction parts arbitrary: out)
     (auto split: if_splits payload.splits sum.splits)

lemma pdf_attachments_of_append:
  "pdf_attachments_of (xs @ ys) = pdf_attachments_of xs @ pdf_attachments_of ys"
  by (induction xs rule: pdf_attachments_of.induct) auto

lemma compose_attachment_count:
  assumes "collect_pdf_attachments (walk (root email)) = Inr atts"
    and "merge_attempt e (invoice_string cfg) st (walk (root email)) atts = (Inr merged, st1)"
    and "compose e cfg st email = (Inr msg, st')"
  shows "length (pdf_attachments_of (attached msg))
       = (if atts = [] then 0
          else if merged \<noteq> None then 1
          else length (filter is_application_pdf (walk (root email))))"
  using assms
  by (auto simp: compose_def Let_def attach_pdfs_def new_message_def pdf_attachments_of_append
        dest!: attach_individual_length
        split: sum.splits prod.splits option.splits path.splits if_splits)

text \<open>
  The body when the first \<open>text/plain\<close> part comes before every \<open>text/html\<close> part:
  its decoded content, and \<open>body_type\<close> as it was on entry (\<open>plain\<close> in \<open>compose\<close>).
\<close>

lemma extract_body_plain_first:
  assumes "list_all (\<lambda>p. \<not> (get_content_maintype p = ''text''
                  \<and> (get_content_subtype p = ''plain'' \<or> get_content_subtype p = ''html''))) pre"
    and "get_content_maintype p = ''text''" "get_content_subtype p = ''plain''"
    and "get_payload p = Bytes b"
  shows "extract_body e (pre @ p # post) body body_type = Inr (utf8_ignore e b, body_type)"
  using assms by (induction pre) (auto simp: decode_text_def)

subsection \<open>Malformed payloads\<close>

text \<open>No loop of \<open>relay_email\<close> tells a malformed payload from a well-formed one.\<close>

lemma as_well_formed_headers [simp]:
  "get_content_maintype (as_well_formed p) = get_content_maintype p"
  "get_content_subtype (as_well_formed p) = get_content_subtype p"
  "content_disposition (as_well_formed p) = content_disposition p"
  "get_filename (as_well_formed p) = get_filename p"
  by (simp_all add: as_well_formed_def split: payload.splits)




lemma is_pdf_attachment_well_formed [simp]:
  "is_pdf_attachment (as_well_formed p) = is_pdf_attachment p"
  by (simp add: is_pdf_attachment_def)

lemma is_application_pdf_well_formed [simp]:
  "is_application_pdf (as_well_formed p) = is_application_pdf p"
  by (simp add: is_application_pdf_def)











subsection \<open>The claims about \<open>relay_email\<close>\<close>

text \<open>
  On the paths where every merge source is written to its temporary file, the merge
  attempt ends without an exception, whether \<open>merge_pdfs\<close> returned a path or \<open>None\<close>
  (the PDF library \<open>e\<close> is arbitrary), and no temporary file numbered from
  \<open>next_temp st\<close> on is left in the store.
\<close>

lemma merge_attempt_cleanup:
  assumes ok: "list_all (\<lambda>p. \<not> is_merge_source p \<or> payload_is_bytes p) parts"
  shows "(\<exists>r. fst (merge_attempt e marker st parts atts) = Inr r)
       \<and> (\<forall>n. next_temp st \<le> n
               \<and> n < next_temp (snd (merge_attempt e marker st parts atts))
             \<longrightarrow> files (snd (merge_attempt e marker st parts atts)) (TempPdf n) = None)"
proof (cases "1 < length atts")
  case False
  then show ?thesis by (auto simp: merge_attempt_def)
next
  case True
  obtain r ps fns st1 where m: "materialize parts [] [] st = (r, ps, fns, st1)"
    by (cases "materialize parts [] [] st") auto
  with materialize_completes[OF ok, of "[]" "[]" st] have r: "r = None" by simp
  from materialize_paths[OF m[unfolded r]]
  have le: "next_temp st \<le> next_temp st1"
    and ps: "set ps = TempPdf ` {next_temp st ..< next_temp st1}" by simp_all
  obtain merged st2 where mp: "merge_pdfs e marker st1 ps fns = (merged, st2)"
    by (cases "merge_pdfs e marker st1 ps fns") auto
  have nt: "next_temp st2 = next_temp st1"
    using merge_pdfs_next_temp[of e marker st1 ps fns] mp by simp
  have res: "merge_attempt e marker st parts atts = (Inr merged, unlink_all ps st2)"
    using True m r mp by (simp add: merge_attempt_def)
  show ?thesis
    unfolding res using ps nt
    by (auto simp: unlink_all_next_temp unlink_all_files)
qed

lemma merge_attempt_cleanup_example:
  "fst (merge_attempt env_ok ''invoice'' st0 (walk (root mail_two_pdfs))
          [Some ''B'', Some ''A'']) = Inr (Some (MergedPdf ''a.pdf''))
   \<and> next_temp (snd (merge_attempt env_ok ''invoice'' st0 (walk (root mail_two_pdfs))
          [Some ''B'', Some ''A''])) = 2
   \<and> files (snd (merge_attempt env_ok ''invoice'' st0 (walk (root mail_two_pdfs))
          [Some ''B'', Some ''A''])) (TempPdf 0) = None
   \<and> files (snd (merge_attempt env_ok ''invoice'' st0 (walk (root mail_two_pdfs))
          [Some ''B'', Some ''A''])) (TempPdf 1) = None
   \<and> fst (merge_attempt env_corrupt ''invoice'' st0 (walk (root mail_two_pdfs))
          [Some ''B'', Some ''A'']) = Inr None
   \<and> next_temp (snd (merge_attempt env_corrupt ''invoice'' st0 (walk (root mail_two_pdfs))
          [Some ''B'', Some ''A''])) = 2
   \<and> files (snd (merge_attempt env_corrupt ''invoice'' st0 (walk (root mail_two_pdfs))
          [Some ''B'', Some ''A''])) (TempPdf 0) = None
   \<and> files (snd (merge_attempt env_corrupt ''invoice'' st0 (walk (root mail_two_pdfs))
          [Some ''B'', Some ''A''])) (TempPdf 1) = None"
proof -
  let ?parts = "walk (root mail_two_pdfs)"
  let ?good = "merge_attempt env_ok ''invoice'' st0 ?parts [Some ''B'', Some ''A'']"
  let ?bad = "merge_attempt env_corrupt ''invoice'' st0 ?parts [Some ''B'', Some ''A'']"
  have ok: "list_all (\<lambda>p. \<not> is_merge_source p \<or> payload_is_bytes p) ?parts"
    by (simp add: mail_two_pdfs_def mail_def multipart_def text_part_def pdf_part_def
          is_merge_source_def payload_is_bytes_def is_application_pdf_def)
  have good: "fst ?good = Inr (Some (MergedPdf ''a.pdf''))" "next_temp (snd ?good) = 2"
    by (simp_all add: mail_two_pdfs_def mail_def multipart_def text_part_def pdf_part_def
          env_ok_def st0_def relay_defs)
  have bad: "fst ?bad = Inr None" "next_temp (snd ?bad) = 2"
    by (simp_all add: mail_two_pdfs_def mail_def multipart_def text_part_def pdf_part_def
          env_corrupt_def st0_def relay_defs)
  have start: "next_temp st0 = 0"
    by (simp add: st0_def)
  from merge_attempt_cleanup
         [OF ok, of env_ok "''invoice''" st0 "[Some ''B'', Some ''A'']"]
  have g: "\<And>n. n < 2 \<Longrightarrow> files (snd ?good) (TempPdf n) = None"
    by (simp add: good start)
  from merge_attempt_cleanup
         [OF ok, of env_corrupt "''invoice''" st0 "[Some ''B'', Some ''A'']"]
  have b: "\<And>n. n < 2 \<Longrightarrow> files (snd ?bad) (TempPdf n) = None"
    by (simp add: bad start)
  show ?thesis
    using good bad g[of 0] g[of 1] b[of 0] b[of 1] by simp
qed




text \<open>
  Claim C5 fails on the code. Two PDFs sent as \<open>application/octet-stream\<close> are both
  collected into \<open>pdf_attachments\<close> (lines 217-250 select by filename), no merge occurs
  (lines 261-270 find no \<open>application/pdf\<close> part, so \<open>merge_pdfs\<close> gets empty lists),
  and the message relayed carries no attachment: lines 291-296 select by content type.
\<close>

theorem relay_drops_octet_stream_pdfs:
  "collect_pdf_attachments (walk (root mail_octet_pdfs)) = Inr [Some ''A'', Some ''B'']
   \<and> fst (merge_attempt env_ok (invoice_string cfg0) st0 (walk (root mail_octet_pdfs))
            [Some ''A'', Some ''B'']) = Inr None
   \<and> map_option (\<lambda>msg. pdf_attachments_of (attached msg))
        (fst (relay_email env_ok cfg0 st0 mail_octet_pdfs)) = Some []"
  by (simp add: mail_octet_pdfs_def mail_def multipart_def octet_part_def
        env_ok_def cfg0_def st0_def relay_defs)

text \<open>
  Claim C6 fails on the code. With a \<open>text/html\<close> part before the \<open>text/plain\<close> part,
  the body is the plain text, but \<open>body_type\<close> keeps the value \<open>html\<close> that line 308
  gave it: the \<open>text/plain\<close> branch of lines 303-305 does not set it back.
\<close>

theorem relay_marks_plain_body_html:
  "map_option (\<lambda>msg. body_of (attached msg))
     (fst (relay_email env_ok cfg0 st0 mail_html_first)) = Some (Some (''hi'', ''html''))"
  by (simp add: mail_html_first_def mail_def multipart_def text_part_def
        env_ok_def cfg0_def st0_def relay_defs)

text \<open>
  Claim C8 fails on the code. Three PDFs are collected, two of type
  \<open>application/pdf\<close> and one of type \<open>application/octet-stream\<close>; the PDF library
  raises inside \<open>merge_pdfs\<close>. The failure is caught (\<open>merge_pdfs\<close> returns \<open>None\<close>) and the message is
  relayed with the first two attached one by one, but the third candidate is not
  attached: lines 291-296 select by content type.
\<close>

theorem relay_failed_merge_drops_candidate:
  "collect_pdf_attachments (walk (root mail_mixed_types))
     = Inr [Some ''A'', Some ''B'', Some ''C'']
   \<and> (case materialize (walk (root mail_mixed_types)) [] [] st0 of
        (err, pdf_paths, pdf_filenames, st1) \<Rightarrow>
          err = None \<and> pdf_paths = [TempPdf 0, TempPdf 1]
          \<and> pdf_filenames = [''a.pdf'', ''b.pdf'']
          \<and> merge_pdfs_try env_corrupt (invoice_string cfg0) st1 pdf_paths pdf_filenames
              = Inl PdfReadError)
   \<and> fst (merge_attempt env_corrupt (invoice_string cfg0) st0 (walk (root mail_mixed_types))
            [Some ''A'', Some ''B'', Some ''C'']) = Inr None
   \<and> map_option (\<lambda>msg. pdf_attachments_of (attached msg))
        (fst (relay_email env_corrupt cfg0 st0 mail_mixed_types))
     = Some [(''a.pdf'', ''A''), (''b.pdf'', ''B'')]"
  by (simp add: mail_mixed_types_def mail_def multipart_def pdf_part_def octet_part_def
        env_corrupt_def cfg0_def st0_def relay_defs)

end
